theory Spec2Isabelle
  imports
    Complex_Main
    "HOL-Library.Sublist"
    "HOL-Library.Char_ord"
    "HOL-Library.List_Lexorder"
    "HOL-Library.Product_Lexorder"
    "HOL-Library.AList"
    "HOL-Library.Multiset"
begin

section \<open>Conventions of the embedding\<close>

text \<open>
  The development embeds \<^verbatim>\<open>src/app.py\<close>: the class \<^verbatim>\<open>AIAccountant\<close>, the connection
  helper \<^verbatim>\<open>get_db_connection\<close> and the table \<^verbatim>\<open>transactions\<close>.

  \<^item> Text is a \<^typ>\<open>string\<close> of 8-bit characters. On ASCII text this is Python's \<^verbatim>\<open>str\<close>;
    the check mark of the confirmation replies (U+2713) is written as its three UTF-8 bytes.
  \<^item> Python integers are \<^typ>\<open>int\<close>.
  \<^item> A Python \<^verbatim>\<open>float\<close> is an exact rational (\<^typ>\<open>rat\<close>): binary rounding is not
    modelled. The two agree on every amount with at most two fractional digits and at most
    fifteen significant digits. Where a third fractional digit decides a tie, the format
    \<^verbatim>\<open>.2f\<close> is modelled as rounding to even, Python's result on a float that is exact.
  \<^item> A \<^verbatim>\<open>DECIMAL(10,2)\<close> column value is the integer number of hundredths.
  \<^item> An exception is the left summand of a sum type; the database is passed in and
    returned. A statement that fails leaves the table as it was.
  \<^item> \<^verbatim>\<open>print\<close> calls are not modelled.
\<close>

section \<open>Strings\<close>

definition newline :: char where
  "newline = CHR 0x0A"

definition apostrophe :: char where
  "apostrophe = CHR 0x27"

definition check_mark :: string where
  "check_mark = [CHR 0xE2, CHR 0x9C, CHR 0x93]"

text \<open>\<^verbatim>\<open>str.lower()\<close> on the letters that the keyword lists can match.\<close>

definition lower_char :: "char \<Rightarrow> char" where
  "lower_char c =
     (let n = (of_char c :: nat) in if 65 \<le> n \<and> n \<le> 90 then char_of (n + 32) else c)"

definition lower :: "string \<Rightarrow> string" where
  "lower s = map lower_char s"

text \<open>Python's \<^verbatim>\<open>w in s\<close> on strings: \<open>w\<close> occurs in \<open>s\<close> as a contiguous block.\<close>

fun str_in :: "string \<Rightarrow> string \<Rightarrow> bool" where
  "str_in w [] = (w = [])"
| "str_in w (c # cs) = (prefix w (c # cs) \<or> str_in w cs)"

text \<open>\<^verbatim>\<open>any(word in s for word in words)\<close>\<close>

definition any_in :: "string list \<Rightarrow> string \<Rightarrow> bool" where
  "any_in words s = list_ex (\<lambda>word. str_in word s) words"

section \<open>Numbers and their rendering\<close>

definition is_digit :: "char \<Rightarrow> bool" where
  "is_digit c = (c \<in> set ''0123456789'')"

definition digit_val :: "char \<Rightarrow> int" where
  "digit_val c = of_char c - 48"

definition int_of_digits :: "string \<Rightarrow> int" where
  "int_of_digits ds = foldl (\<lambda>n c. 10 * n + digit_val c) 0 ds"

text \<open>
  \<^verbatim>\<open>float(s)\<close> on the strings \<open>digits\<close>, \<open>digits.\<close> and \<open>digits.digits\<close>; any other string
  is \<^verbatim>\<open>ValueError\<close> (\<open>None\<close>).
\<close>

definition py_float :: "string \<Rightarrow> rat option" where
  "py_float s =
     (let ip = takeWhile is_digit s; r = dropWhile is_digit s
      in if ip = [] then None
         else (case r of
                 [] \<Rightarrow> Some (of_int (int_of_digits ip))
               | c # fp \<Rightarrow>
                   if c = CHR ''.'' \<and> list_all is_digit fp
                   then Some (of_int (int_of_digits ip)
                              + of_int (int_of_digits fp) / 10 ^ length fp)
                   else None))"

text \<open>The decimal digits of a non-negative integer.\<close>

function show_int :: "int \<Rightarrow> string" where
  "show_int n =
     (if n < 10 then [''0123456789'' ! nat n]
      else show_int (n div 10) @ [''0123456789'' ! nat (n mod 10)])"
  by pat_completeness auto
termination
  by (relation "measure nat") auto

text \<open>Two digits with a leading zero, as \<^verbatim>\<open>%m\<close>, \<^verbatim>\<open>%d\<close> and the fraction of \<^verbatim>\<open>.2f\<close> print them.\<close>

definition pad2 :: "int \<Rightarrow> string" where
  "pad2 n = (if n < 10 then ''0'' @ show_int n else show_int n)"

definition round_half_even :: "rat \<Rightarrow> int" where
  "round_half_even x =
     (let f = \<lfloor>x\<rfloor>; d = x - of_int f
      in if d < 1 / 2 then f else if 1 / 2 < d then f + 1 else if even f then f else f + 1)"

text \<open>The format \<^verbatim>\<open>{x:.2f}\<close>.\<close>

definition fmt2f :: "rat \<Rightarrow> string" where
  "fmt2f x =
     (let c = round_half_even (\<bar>x\<bar> * 100)
      in (if x < 0 then ''-'' else '''') @ show_int (c div 100) @ ''.'' @ pad2 (c mod 100))"

section \<open>The amount pattern\<close>

text \<open>
  \<^verbatim>\<open>re.search(r'\$?(\d+\.?\d*)', text)\<close>, returning group 1 of the leftmost match.
  \<open>match_group\<close> is the group \<^verbatim>\<open>(\d+\.?\d*)\<close> at the start of a string (all three parts
  are greedy and nothing follows them, so there is no backtracking inside the group),
  \<open>match_here\<close> the whole pattern at the start of a string (the optional \<^verbatim>\<open>$\<close> is tried
  first, then skipped), and \<open>re_search\<close> tries every start position from the left.
\<close>

definition match_group :: "string \<Rightarrow> string option" where
  "match_group s =
     (let ds = takeWhile is_digit s; r = dropWhile is_digit s
      in if ds = [] then None
         else (case r of
                 [] \<Rightarrow> Some ds
               | c # r' \<Rightarrow>
                   if c = CHR ''.'' then Some (ds @ ''.'' @ takeWhile is_digit r')
                   else Some ds))"

definition match_here :: "string \<Rightarrow> string option" where
  "match_here s =
     (case s of
        [] \<Rightarrow> match_group s
      | c # r \<Rightarrow>
          if c = CHR ''$''
          then (case match_group r of Some g \<Rightarrow> Some g | None \<Rightarrow> match_group s)
          else match_group s)"

fun re_search :: "string \<Rightarrow> string option" where
  "re_search [] = match_here []"
| "re_search (c # cs) =
     (case match_here (c # cs) of Some g \<Rightarrow> Some g | None \<Rightarrow> re_search cs)"

section \<open>The ledger\<close>

text \<open>
  A \<^verbatim>\<open>datetime\<close>: year, month, day and the time of day in microseconds. Two values compare
  field by field in this order.
\<close>

record datetime =
  dt_year :: int
  dt_month :: int
  dt_day :: int
  dt_time :: int

definition date_key :: "datetime \<Rightarrow> int \<times> int \<times> int \<times> int" where
  "date_key d = (dt_year d, dt_month d, dt_day d, dt_time d)"

text \<open>
  A row of the table \<^verbatim>\<open>transactions\<close>. The serial \<^verbatim>\<open>id\<close> is never read by the program;
  rows are kept in insertion order.
\<close>

record txn =
  date :: datetime
  description :: string
  debit_account :: string
  credit_account :: string
  amount :: int
  ai_categorized :: bool

datatype exn = AttributeError | OperationalError | DataError | ValueError | APIError

text \<open>
  The storage backend as one request sees it: no \<^verbatim>\<open>DATABASE_URL\<close> configured, a configured
  server that refuses the connection, or a server holding the rows of the table.
\<close>

datatype database = NoDatabaseUrl | Unreachable | Up "txn list"

text \<open>
  \<^verbatim>\<open>get_db_connection\<close> returns \<^verbatim>\<open>None\<close> without a \<^verbatim>\<open>DATABASE_URL\<close>;
  \<^verbatim>\<open>psycopg2.connect\<close> raises when the server cannot be reached.
\<close>

definition get_db_connection :: "database \<Rightarrow> exn + txn list option" where
  "get_db_connection db =
     (case db of
        NoDatabaseUrl \<Rightarrow> Inr None
      | Unreachable \<Rightarrow> Inl OperationalError
      | Up rows \<Rightarrow> Inr (Some rows))"

text \<open>
  Storing a number in a \<^verbatim>\<open>DECIMAL(10,2)\<close> column: rounded to two fractional digits, half
  away from zero; ten digits in all, so a rounded value of \<open>10\<^sup>8\<close> or more is rejected.
\<close>

definition to_decimal_10_2 :: "rat \<Rightarrow> exn + int" where
  "to_decimal_10_2 x =
     (let c = (if x < 0 then - \<lfloor>- x * 100 + 1 / 2\<rfloor> else \<lfloor>x * 100 + 1 / 2\<rfloor>)
      in if \<bar>c\<bar> < 10 ^ 10 then Inr c else Inl DataError)"

text \<open>The \<^verbatim>\<open>INSERT INTO transactions\<close> statement with its commit: one row appended, or an error.\<close>

definition insert_transaction ::
  "txn list \<Rightarrow> datetime \<Rightarrow> string \<Rightarrow> string \<Rightarrow> string \<Rightarrow> rat \<Rightarrow> bool \<Rightarrow> exn + txn list" where
  "insert_transaction rows d descr debit credit amt ai =
     (case to_decimal_10_2 amt of
        Inl e \<Rightarrow> Inl e
      | Inr c \<Rightarrow>
          Inr (rows @ [\<lparr>date = d, description = descr, debit_account = debit,
                        credit_account = credit, amount = c, ai_categorized = ai\<rparr>]))"

section \<open>Recording transactions\<close>

definition no_amount_expense_msg :: string where
  "no_amount_expense_msg =
     ''I couldn'' @ [apostrophe] @ ''t find an amount. Please include a number like ''
     @ [apostrophe] @ ''$25'' @ [apostrophe] @ '' or '' @ [apostrophe] @ ''25.50'' @ [apostrophe]"

definition no_amount_income_msg :: string where
  "no_amount_income_msg =
     ''I couldn'' @ [apostrophe] @ ''t find an amount. Please include a number.''"

text \<open>The category chosen in \<^verbatim>\<open>record_expense\<close> (lines 130 to 134).\<close>

definition categorize_expense :: "string \<Rightarrow> string" where
  "categorize_expense text =
     (if any_in [''food'', ''lunch'', ''dinner'', ''coffee''] (lower text) then ''Expenses:Food''
      else if any_in [''gas'', ''uber'', ''taxi'', ''parking''] (lower text)
      then ''Expenses:Transport''
      else ''Expenses:General'')"

text \<open>
  \<^verbatim>\<open>record_expense\<close>. \<open>now\<close> is the value of \<^verbatim>\<open>datetime.now()\<close>. \<^verbatim>\<open>conn.cursor()\<close> on
  the \<^verbatim>\<open>None\<close> connection raises \<^verbatim>\<open>AttributeError\<close>; nothing in the method catches
  an exception.
\<close>

definition record_expense :: "datetime \<Rightarrow> string \<Rightarrow> database \<Rightarrow> exn + string \<times> database" where
  "record_expense now text db =
     (case re_search text of
        None \<Rightarrow> Inr (no_amount_expense_msg, db)
      | Some g \<Rightarrow>
          (case py_float g of
             None \<Rightarrow> Inl ValueError
           | Some amt \<Rightarrow>
               let category = categorize_expense text
               in (case get_db_connection db of
                     Inl e \<Rightarrow> Inl e
                   | Inr None \<Rightarrow> Inl AttributeError
                   | Inr (Some rows) \<Rightarrow>
                       (case insert_transaction rows now text category ''Assets:Cash'' amt True of
                          Inl e \<Rightarrow> Inl e
                        | Inr rows' \<Rightarrow>
                            Inr (check_mark @ '' Recorded: '' @ category @ '' $'' @ fmt2f amt
                                 @ [newline] @ ''Description: '' @ text, Up rows')))))"

definition record_income :: "datetime \<Rightarrow> string \<Rightarrow> database \<Rightarrow> exn + string \<times> database" where
  "record_income now text db =
     (case re_search text of
        None \<Rightarrow> Inr (no_amount_income_msg, db)
      | Some g \<Rightarrow>
          (case py_float g of
             None \<Rightarrow> Inl ValueError
           | Some amt \<Rightarrow>
               (case get_db_connection db of
                  Inl e \<Rightarrow> Inl e
                | Inr None \<Rightarrow> Inl AttributeError
                | Inr (Some rows) \<Rightarrow>
                    (case insert_transaction rows now text ''Assets:Bank'' ''Revenue:Sales'' amt True of
                       Inl e \<Rightarrow> Inl e
                     | Inr rows' \<Rightarrow>
                         Inr (check_mark @ '' Recorded income: $'' @ fmt2f amt
                              @ [newline] @ ''Description: '' @ text, Up rows')))))"

section \<open>Reports\<close>

text \<open>
  \<^verbatim>\<open>SELECT key, SUM(amount) FROM transactions GROUP BY key\<close>: one row per value of the
  key column. SQL leaves the order of the groups open; the model lists them by last
  occurrence.
\<close>

definition group_by_sum :: "(txn \<Rightarrow> string) \<Rightarrow> txn list \<Rightarrow> (string \<times> int) list" where
  "group_by_sum key rows =
     map (\<lambda>a. (a, sum_list (map amount (filter (\<lambda>r. key r = a) rows)))) (remdups (map key rows))"

text \<open>\<^verbatim>\<open>float(amount)\<close> of a \<^verbatim>\<open>DECIMAL(10,2)\<close> value read back from the table.\<close>

definition float_of_decimal :: "int \<Rightarrow> rat" where
  "float_of_decimal c = of_int c / 100"

text \<open>The query of \<^verbatim>\<open>get_balances\<close>: debit groups, then the negated credit groups.\<close>

definition balances_query :: "txn list \<Rightarrow> (string \<times> int) list" where
  "balances_query rows =
     group_by_sum debit_account rows
     @ map (\<lambda>(account, total_sum). (account, - total_sum)) (group_by_sum credit_account rows)"

text \<open>
  The loop \<^verbatim>\<open>balances[account] = balances.get(account, 0) + float(amount)\<close> over the fetched
  rows. The dictionary is an association list in insertion order.
\<close>

definition balances_step :: "(string \<times> rat) list \<Rightarrow> string \<times> int \<Rightarrow> (string \<times> rat) list" where
  "balances_step balances row =
     (case row of (account, amt) \<Rightarrow>
        AList.update account
          ((case map_of balances account of None \<Rightarrow> 0 | Some b \<Rightarrow> b) + float_of_decimal amt)
          balances)"

definition accumulate_balances :: "(string \<times> int) list \<Rightarrow> (string \<times> rat) list" where
  "accumulate_balances fetched = foldl balances_step [] fetched"

definition balance_line :: "string \<times> rat \<Rightarrow> string" where
  "balance_line item =
     (case item of (account, balance) \<Rightarrow>
        account @ '': $'' @ fmt2f \<bar>balance\<bar> @ '' ''
        @ (if 0 < balance then ''DR'' else ''CR'') @ [newline])"

text \<open>The entries that \<^verbatim>\<open>get_balances\<close> prints, in the order it prints them.\<close>

definition balance_entries :: "txn list \<Rightarrow> (string \<times> rat) list" where
  "balance_entries rows =
     filter (\<lambda>(account, balance). balance \<noteq> 0) (sort (accumulate_balances (balances_query rows)))"

definition get_balances :: "database \<Rightarrow> exn + string" where
  "get_balances db =
     (case get_db_connection db of
        Inl e \<Rightarrow> Inl e
      | Inr None \<Rightarrow> Inl AttributeError
      | Inr (Some rows) \<Rightarrow>
          Inr (''**Account Balances:**'' @ [newline]
               @ concat (map balance_line (balance_entries rows))))"

text \<open>
  \<^verbatim>\<open>ORDER BY date DESC LIMIT 5\<close>. SQL leaves the order of rows with equal dates open;
  the model puts the later insertion first.
\<close>

definition recent_query :: "txn list \<Rightarrow> txn list" where
  "recent_query rows = take 5 (rev (sort_key (\<lambda>r. date_key (date r)) rows))"

definition recent_line :: "txn \<Rightarrow> string" where
  "recent_line r =
     pad2 (dt_month (date r)) @ ''/'' @ pad2 (dt_day (date r)) @ '': ''
     @ take 30 (description r) @ ''... $'' @ fmt2f (float_of_decimal (amount r)) @ [newline]"

definition get_recent_transactions :: "database \<Rightarrow> exn + string" where
  "get_recent_transactions db =
     (case get_db_connection db of
        Inl e \<Rightarrow> Inl e
      | Inr None \<Rightarrow> Inl AttributeError
      | Inr (Some rows) \<Rightarrow>
          Inr (''**Recent Transactions:**'' @ [newline]
               @ concat (map recent_line (recent_query rows))))"

text \<open>
  The query of \<^verbatim>\<open>get_expenses_summary\<close>:
  \<^verbatim>\<open>WHERE debit_account LIKE 'Expenses:%' GROUP BY debit_account ORDER BY total DESC\<close>.
\<close>

definition expenses_query :: "txn list \<Rightarrow> (string \<times> int) list" where
  "expenses_query rows =
     rev (sort_key snd
            (group_by_sum debit_account
               (filter (\<lambda>r. prefix ''Expenses:'' (debit_account r)) rows)))"

text \<open>The loop of \<^verbatim>\<open>get_expenses_summary\<close>: the text so far and the running total.\<close>

definition summary_step :: "string \<times> rat \<Rightarrow> string \<times> int \<Rightarrow> string \<times> rat" where
  "summary_step acc row =
     (case acc of (result, total_sum) \<Rightarrow>
        (case row of (account, amt) \<Rightarrow>
           (result @ account @ '': $'' @ fmt2f (float_of_decimal amt) @ [newline],
            total_sum + float_of_decimal amt)))"

definition summary_loop :: "(string \<times> int) list \<Rightarrow> string \<times> rat" where
  "summary_loop fetched = foldl summary_step (''**Expense Summary:**'' @ [newline], 0) fetched"

definition get_expenses_summary :: "database \<Rightarrow> exn + string" where
  "get_expenses_summary db =
     (case get_db_connection db of
        Inl e \<Rightarrow> Inl e
      | Inr None \<Rightarrow> Inl AttributeError
      | Inr (Some rows) \<Rightarrow>
          (case summary_loop (expenses_query rows) of (result, total_sum) \<Rightarrow>
             Inr (result @ [newline] @ ''**Total Expenses: $'' @ fmt2f total_sum @ ''**'')))"

definition handle_query :: "string \<Rightarrow> database \<Rightarrow> exn + string" where
  "handle_query text db =
     (if str_in ''balance'' (lower text) then get_balances db
      else if str_in ''expense'' (lower text) then get_expenses_summary db
      else get_recent_transactions db)"

section \<open>The router\<close>

definition help_msg :: string where
  "help_msg =
     ''I can help you record transactions or check balances. Try saying ''
     @ [apostrophe] @ ''I spent $X on Y'' @ [apostrophe] @ '' or '' @ [apostrophe]
     @ ''Show me my expenses'' @ [apostrophe]"

text \<open>A report leaves the database as it is.\<close>

definition with_db :: "database \<Rightarrow> exn + string \<Rightarrow> exn + string \<times> database" where
  "with_db db r = (case r of Inl e \<Rightarrow> Inl e | Inr reply \<Rightarrow> Inr (reply, db))"

text \<open>The keyword matching of \<^verbatim>\<open>process_natural_language\<close> (lines 108 to 117).\<close>

definition pattern_matching :: "datetime \<Rightarrow> string \<Rightarrow> database \<Rightarrow> exn + string \<times> database" where
  "pattern_matching now user_input db =
     (let user_input_lower = lower user_input
      in if any_in [''bought'', ''paid'', ''spent''] user_input_lower
         then record_expense now user_input db
         else if any_in [''received'', ''earned'', ''got paid''] user_input_lower
         then record_income now user_input db
         else if any_in [''show'', ''what'', ''how much'', ''balance''] user_input_lower
         then with_db db (handle_query user_input db)
         else Inr (help_msg, db))"

text \<open>
  The body of the \<^verbatim>\<open>try\<close> block (lines 85 to 101). \<open>answer\<close> is what the call
  \<^verbatim>\<open>self.client.messages.create\<close> does on this request: it raises, or it returns a
  message whose text is \<open>ai_response\<close>.
\<close>

definition ai_dispatch ::
  "exn + string \<Rightarrow> datetime \<Rightarrow> string \<Rightarrow> database \<Rightarrow> exn + string \<times> database" where
  "ai_dispatch answer now user_input db =
     (case answer of
        Inl e \<Rightarrow> Inl e
      | Inr ai_response \<Rightarrow>
          if str_in ''EXPENSE'' ai_response then record_expense now user_input db
          else if str_in ''INCOME'' ai_response then record_income now user_input db
          else with_db db (handle_query user_input db))"

text \<open>
  \<^verbatim>\<open>process_natural_language\<close>. \<open>client\<close> is \<open>None\<close> when no API key is configured. Any
  exception raised inside the \<^verbatim>\<open>try\<close> block, by the model call or by the handler it
  dispatched to, is caught and the keyword matching runs; an exception raised there leaves
  the method.
\<close>

definition process_natural_language ::
  "(exn + string) option \<Rightarrow> datetime \<Rightarrow> string \<Rightarrow> database \<Rightarrow> exn + string \<times> database" where
  "process_natural_language client now user_input db =
     (case client of
        None \<Rightarrow> pattern_matching now user_input db
      | Some answer \<Rightarrow>
          (case ai_dispatch answer now user_input db of
             Inr r \<Rightarrow> Inr r
           | Inl e \<Rightarrow> pattern_matching now user_input db))"

text \<open>A fixed instant for the worked examples.\<close>

definition example_time :: datetime where
  "example_time = \<lparr>dt_year = 2024, dt_month = 3, dt_day = 7, dt_time = 0\<rparr>"

text \<open>
  What one request may do to the table: nothing, or append one row whose amount is not
  negative.
\<close>

definition appended_nonneg :: "database \<Rightarrow> database \<Rightarrow> bool" where
  "appended_nonneg db db' \<longleftrightarrow>
     db' = db \<or> (\<exists>rows t. db = Up rows \<and> db' = Up (rows @ [t]) \<and> 0 \<le> amount t)"


text \<open>
  The balances as the specification states them: an account is any name that occurs as a
  debit or credit account, and its balance is the sum of the amounts debited to it minus
  the sum of the amounts credited to it.
\<close>

definition spec_accounts :: "txn list \<Rightarrow> string set" where
  "spec_accounts rows = debit_account ` set rows \<union> credit_account ` set rows"

definition spec_balance :: "txn list \<Rightarrow> string \<Rightarrow> rat" where
  "spec_balance rows a =
     float_of_decimal (sum_list (map amount (filter (\<lambda>r. debit_account r = a) rows)))
     - float_of_decimal (sum_list (map amount (filter (\<lambda>r. credit_account r = a) rows)))"

text \<open>\<^verbatim>\<open>balances.get(account, 0)\<close> on the association list.\<close>

definition lookup0 :: "(string \<times> rat) list \<Rightarrow> string \<Rightarrow> rat" where
  "lookup0 al a = (case map_of al a of None \<Rightarrow> 0 | Some b \<Rightarrow> b)"

text \<open>A rendered number ends in a point and two digits.\<close>

definition two_decimals :: "string \<Rightarrow> bool" where
  "two_decimals s =
     (case rev s of
        d2 # d1 # p # _ \<Rightarrow> is_digit d1 \<and> is_digit d2 \<and> p = CHR ''.''
      | _ \<Rightarrow> False)"

text \<open>The line of the expense summary for one account and its total.\<close>

definition summary_line :: "string \<times> int \<Rightarrow> string" where
  "summary_line row =
     (case row of (account, total_sum) \<Rightarrow>
        account @ '': $'' @ fmt2f (float_of_decimal total_sum) @ [newline])"

text \<open>A ledger of six rows for the worked examples.\<close>

definition example_row :: "int \<Rightarrow> string \<Rightarrow> string \<Rightarrow> string \<Rightarrow> int \<Rightarrow> txn" where
  "example_row d descr debit credit amt =
     \<lparr>date = \<lparr>dt_year = 2024, dt_month = 3, dt_day = d, dt_time = 0\<rparr>, description = descr,
      debit_account = debit, credit_account = credit, amount = amt, ai_categorized = True\<rparr>"

definition example_ledger :: "txn list" where
  "example_ledger =
     [example_row 1 ''coffee'' ''Expenses:Food'' ''Assets:Cash'' 450,
      example_row 5 ''taxi to the airport and back again'' ''Expenses:Transport'' ''Assets:Cash'' 3000,
      example_row 2 ''client paid the invoice'' ''Assets:Bank'' ''Revenue:Sales'' 500000,
      example_row 9 ''lunch'' ''Expenses:Food'' ''Assets:Cash'' 1250,
      example_row 3 ''stamps'' ''Expenses:General'' ''Assets:Cash'' 1700,
      example_row 7 ''refund'' ''Assets:Cash'' ''Expenses:General'' 1700]"

section \<open>The amount pattern finds the first number\<close>

declare show_int.simps [simp del]

lemma not_digit_dot [simp]: "\<not> is_digit CHR ''.''"
  by (simp add: is_digit_def)

lemma not_digit_dollar [simp]: "\<not> is_digit CHR ''$''"
  by (simp add: is_digit_def)

lemma match_group_None_iff: "match_group s = None \<longleftrightarrow> (s = [] \<or> \<not> is_digit (hd s))"
  by (cases s) (auto simp: match_group_def Let_def split: list.splits)

lemma match_group_not_digit: "\<not> is_digit c \<Longrightarrow> match_group (c # cs) = None"
  by (simp add: match_group_def)

lemma takeWhile_all_digits: "\<forall>c\<in>set ds. is_digit c \<Longrightarrow> takeWhile is_digit ds = ds"
  by (simp add: takeWhile_eq_all_conv)

lemma dropWhile_all_digits: "\<forall>c\<in>set ds. is_digit c \<Longrightarrow> dropWhile is_digit ds = []"
  by simp

lemma match_here_digit: "is_digit c \<Longrightarrow> match_here (c # cs) = match_group (c # cs)"
  by (auto simp: match_here_def)

lemma match_here_not_digit:
  "\<not> is_digit c \<Longrightarrow> match_here (c # cs) = (if c = CHR ''$'' then match_group cs else None)"
  by (auto simp: match_here_def match_group_not_digit split: option.splits)

lemma re_search_dropWhile:
  "re_search s = (case dropWhile (\<lambda>c. \<not> is_digit c) s of [] \<Rightarrow> None | c # r \<Rightarrow> match_group (c # r))"
proof (induction s)
  case Nil
  show ?case by (simp add: match_here_def match_group_def)
next
  case (Cons c cs)
  show ?case
  proof (cases "is_digit c")
    case True
    then have "match_group (c # cs) \<noteq> None" by (simp add: match_group_None_iff)
    with True show ?thesis by (auto simp: match_here_digit)
  next
    case False
    show ?thesis
    proof (cases "match_here (c # cs)")
      case None
      with False Cons.IH show ?thesis by simp
    next
      case (Some g)
      with False have g: "match_group cs = Some g"
        by (simp add: match_here_not_digit split: if_splits)
      then obtain d r where cs: "cs = d # r" and d: "is_digit d"
        using match_group_None_iff [of cs] by (cases cs) auto
      with False Some g show ?thesis by simp
    qed
  qed
qed





lemma digit_val_nonneg: "is_digit c \<Longrightarrow> 0 \<le> digit_val c"
  by (auto simp: is_digit_def digit_val_def)

lemma foldl_digits_nonneg:
  "0 \<le> acc \<Longrightarrow> \<forall>c\<in>set ds. is_digit c
   \<Longrightarrow> 0 \<le> foldl (\<lambda>n c. 10 * n + digit_val c) acc ds"
proof (induction ds arbitrary: acc)
  case Nil
  then show ?case by simp
next
  case (Cons d ds)
  from Cons.prems have "0 \<le> 10 * acc + digit_val d"
    using digit_val_nonneg [of d] by simp
  with Cons show ?case by simp
qed

lemma int_of_digits_nonneg: "\<forall>c\<in>set ds. is_digit c \<Longrightarrow> 0 \<le> int_of_digits ds"
  unfolding int_of_digits_def by (rule foldl_digits_nonneg) simp_all

lemma py_float_int:
  assumes "ds \<noteq> []" "\<forall>c\<in>set ds. is_digit c"
  shows "py_float ds = Some (of_int (int_of_digits ds))"
  using assms by (simp add: py_float_def takeWhile_all_digits dropWhile_all_digits)

lemma py_float_frac:
  assumes "ds \<noteq> []" "\<forall>c\<in>set ds. is_digit c" "\<forall>c\<in>set fs. is_digit c"
  shows "py_float (ds @ ''.'' @ fs) =
           Some (of_int (int_of_digits ds) + of_int (int_of_digits fs) / 10 ^ length fs)"
proof -
  have t: "takeWhile is_digit (ds @ CHR ''.'' # fs) = ds"
    using assms by (simp add: takeWhile_append)
  have d: "dropWhile is_digit (ds @ CHR ''.'' # fs) = CHR ''.'' # fs"
    using assms by (simp add: dropWhile_append)
  show ?thesis using assms by (simp add: py_float_def t d list_all_iff)
qed

lemma match_group_form:
  assumes "match_group s = Some g"
  shows "\<exists>ds. ds \<noteq> [] \<and> (\<forall>c\<in>set ds. is_digit c) \<and>
           (g = ds \<or> (\<exists>fs. (\<forall>c\<in>set fs. is_digit c) \<and> g = ds @ ''.'' @ fs))"
proof -
  let ?ds = "takeWhile is_digit s"
  have ds: "?ds \<noteq> []" using assms by (auto simp: match_group_def Let_def split: if_splits)
  have all: "\<forall>c\<in>set ?ds. is_digit c" by (metis set_takeWhileD)
  have "g = ?ds \<or> (\<exists>r. g = ?ds @ ''.'' @ takeWhile is_digit r)"
    using assms by (auto simp: match_group_def Let_def split: if_splits list.splits)
  moreover have "\<And>r. \<forall>c\<in>set (takeWhile is_digit r). is_digit c" by (metis set_takeWhileD)
  ultimately show ?thesis using ds all by blast
qed

lemma re_search_form:
  assumes "re_search s = Some g"
  shows "\<exists>ds. ds \<noteq> [] \<and> (\<forall>c\<in>set ds. is_digit c) \<and>
           (g = ds \<or> (\<exists>fs. (\<forall>c\<in>set fs. is_digit c) \<and> g = ds @ ''.'' @ fs))"
  using assms match_group_form
  by (auto simp: re_search_dropWhile split: list.splits)

lemma re_search_py_float:
  assumes "re_search s = Some g"
  shows "\<exists>x. py_float g = Some x \<and> 0 \<le> x"
proof -
  from re_search_form [OF assms] obtain ds where ds: "ds \<noteq> []" "\<forall>c\<in>set ds. is_digit c"
    and g: "g = ds \<or> (\<exists>fs. (\<forall>c\<in>set fs. is_digit c) \<and> g = ds @ ''.'' @ fs)" by blast
  from g show ?thesis
  proof
    assume "g = ds"
    then show ?thesis using py_float_int [OF ds] int_of_digits_nonneg [OF ds(2)] by simp
  next
    assume "\<exists>fs. (\<forall>c\<in>set fs. is_digit c) \<and> g = ds @ ''.'' @ fs"
    then obtain fs where fs: "\<forall>c\<in>set fs. is_digit c" and g: "g = ds @ ''.'' @ fs" by blast
    show ?thesis
      using py_float_frac [OF ds fs] g int_of_digits_nonneg [OF ds(2)] int_of_digits_nonneg [OF fs]
      by simp
  qed
qed




section \<open>Substrings\<close>

lemma str_in_iff: "str_in w s \<longleftrightarrow> (\<exists>p q. s = p @ w @ q)"
proof (induction s)
  case Nil
  show ?case by auto
next
  case (Cons c cs)
  show ?case
  proof
    assume "str_in w (c # cs)"
    then consider "prefix w (c # cs)" | "str_in w cs" by auto
    then show "\<exists>p q. c # cs = p @ w @ q"
    proof cases
      case 1
      then obtain q where "c # cs = w @ q" by (auto simp: prefix_def)
      then have "c # cs = [] @ w @ q" by simp
      then show ?thesis by blast
    next
      case 2
      with Cons.IH obtain p q where "cs = p @ w @ q" by blast
      then have "c # cs = (c # p) @ w @ q" by simp
      then show ?thesis by blast
    qed
  next
    assume "\<exists>p q. c # cs = p @ w @ q"
    then obtain p q where pq: "c # cs = p @ w @ q" by blast
    show "str_in w (c # cs)"
    proof (cases p)
      case Nil
      with pq have "prefix w (c # cs)" by (simp add: prefix_def)
      then show ?thesis by simp
    next
      case (Cons d p')
      with pq have "cs = p' @ w @ q" by simp
      with Cons.IH have "str_in w cs" by blast
      then show ?thesis by simp
    qed
  qed
qed

lemma str_in_suffix_word: "str_in (u @ w) s \<Longrightarrow> str_in w s"
proof -
  assume "str_in (u @ w) s"
  then obtain p q where "s = p @ (u @ w) @ q" by (auto simp: str_in_iff)
  then have "s = (p @ u) @ w @ q" by simp
  then show ?thesis unfolding str_in_iff by blast
qed

lemma got_paid_contains_paid: "str_in ''got paid'' s \<Longrightarrow> str_in ''paid'' s"
  using str_in_suffix_word [of "''got ''" "''paid''" s] by simp

section \<open>What a request does to the table\<close>

lemma to_decimal_nonneg: "0 \<le> x \<Longrightarrow> to_decimal_10_2 x = Inr c \<Longrightarrow> 0 \<le> c"
  by (auto simp: to_decimal_10_2_def Let_def split: if_splits)

lemma insert_transaction_effect:
  assumes "insert_transaction rows d descr debit credit amt ai = Inr rows'" "0 \<le> amt"
  shows "\<exists>t. rows' = rows @ [t] \<and> 0 \<le> amount t \<and> date t = d \<and> description t = descr
           \<and> debit_account t = debit \<and> credit_account t = credit \<and> ai_categorized t = ai"
  using assms
  by (auto simp: insert_transaction_def split: sum.splits dest: to_decimal_nonneg)



lemma record_expense_effect:
  assumes "record_expense now text db = Inr (reply, db')"
  shows "db' = db \<or> (\<exists>rows t. db = Up rows \<and> db' = Up (rows @ [t]) \<and> 0 \<le> amount t
            \<and> debit_account t = categorize_expense text \<and> credit_account t = ''Assets:Cash'')"
proof (cases "re_search text")
  case None
  with assms show ?thesis by (simp add: record_expense_def)
next
  case (Some g)
  then obtain x where x: "py_float g = Some x" "0 \<le> x" using re_search_py_float by blast
  from assms Some x obtain rows rows' where db: "db = Up rows" "db' = Up rows'"
    and ins: "insert_transaction rows now text (categorize_expense text) ''Assets:Cash'' x True
                = Inr rows'"
    by (auto simp: record_expense_def get_db_connection_def Let_def
        split: database.splits sum.splits)
  from insert_transaction_effect [OF ins x(2)] db show ?thesis by auto
qed

lemma record_income_effect:
  assumes "record_income now text db = Inr (reply, db')"
  shows "db' = db \<or> (\<exists>rows t. db = Up rows \<and> db' = Up (rows @ [t]) \<and> 0 \<le> amount t
            \<and> debit_account t = ''Assets:Bank'' \<and> credit_account t = ''Revenue:Sales'')"
proof (cases "re_search text")
  case None
  with assms show ?thesis by (simp add: record_income_def)
next
  case (Some g)
  then obtain x where x: "py_float g = Some x" "0 \<le> x" using re_search_py_float by blast
  from assms Some x obtain rows rows' where db: "db = Up rows" "db' = Up rows'"
    and ins: "insert_transaction rows now text ''Assets:Bank'' ''Revenue:Sales'' x True
                = Inr rows'"
    by (auto simp: record_income_def get_db_connection_def
        split: database.splits sum.splits)
  from insert_transaction_effect [OF ins x(2)] db show ?thesis by auto
qed

lemma with_db_effect: "with_db db r = Inr (reply, db') \<Longrightarrow> db' = db"
  by (auto simp: with_db_def split: sum.splits)

lemma pattern_matching_effect:
  assumes "pattern_matching now text db = Inr (reply, db')"
  shows "appended_nonneg db db'"
  using assms record_expense_effect [of now "text" db reply db']
    record_income_effect [of now "text" db reply db'] with_db_effect [of db _ reply db']
  unfolding appended_nonneg_def pattern_matching_def Let_def
  by (auto split: if_splits)

lemma ai_dispatch_effect:
  assumes "ai_dispatch answer now text db = Inr (reply, db')"
  shows "appended_nonneg db db'"
  using assms record_expense_effect [of now "text" db reply db']
    record_income_effect [of now "text" db reply db'] with_db_effect [of db _ reply db']
  unfolding appended_nonneg_def ai_dispatch_def
  by (auto split: if_splits sum.splits)

lemma process_effect:
  assumes "process_natural_language client now text db = Inr (reply, db')"
  shows "appended_nonneg db db'"
  using assms pattern_matching_effect [of now "text" db reply db']
    ai_dispatch_effect [of _ now "text" db reply db']
  unfolding process_natural_language_def
  by (auto split: option.splits sum.splits)

section \<open>Storage failures\<close>








section \<open>Classification and recording\<close>

lemma any_in_expense_paid: "str_in ''paid'' s \<Longrightarrow> any_in [''bought'', ''paid'', ''spent''] s"
  by (simp add: any_in_def)

text \<open>
  C1. The keyword matching tests the expense words before the income words, and
  \<^verbatim>\<open>paid\<close> is one of them: every text that contains the income phrase \<^verbatim>\<open>got paid\<close>
  contains \<^verbatim>\<open>paid\<close> and is handed to \<^verbatim>\<open>record_expense\<close>. So
  \<^verbatim>\<open>Got paid $5000 from client project\<close>, one of the examples the interface offers, is
  booked as a general expense against cash and not as income. A text with an income word
  and no expense word is handed to \<^verbatim>\<open>record_income\<close>.
\<close>

theorem got_paid_is_recorded_as_expense:
  "(str_in ''got paid'' (lower msg)
      \<longrightarrow> process_natural_language None now msg db = record_expense now msg db)
   \<and> (\<not> any_in [''bought'', ''paid'', ''spent''] (lower msg)
        \<and> any_in [''received'', ''earned'', ''got paid''] (lower msg)
      \<longrightarrow> process_natural_language None now msg db = record_income now msg db)"
  using any_in_expense_paid [OF got_paid_contains_paid, of "lower msg"]
  by (simp add: process_natural_language_def pattern_matching_def)

theorem got_paid_is_recorded_as_expense_witness:
  "str_in ''got paid'' (lower ''Got paid $5000 from client project'')
   \<and> process_natural_language None example_time ''Got paid $5000 from client project'' (Up [])
     = Inr (check_mark @ '' Recorded: Expenses:General $5000.00'' @ [newline]
            @ ''Description: Got paid $5000 from client project'',
            Up [\<lparr>date = example_time, description = ''Got paid $5000 from client project'',
                 debit_account = ''Expenses:General'', credit_account = ''Assets:Cash'',
                 amount = 500000, ai_categorized = True\<rparr>])"
proof -
  have a: "str_in ''got paid'' (lower ''Got paid $5000 from client project'')"
    by code_simp
  have b: "record_expense example_time ''Got paid $5000 from client project'' (Up [])
     = Inr (check_mark @ '' Recorded: Expenses:General $5000.00'' @ [newline]
            @ ''Description: Got paid $5000 from client project'',
            Up [\<lparr>date = example_time, description = ''Got paid $5000 from client project'',
                 debit_account = ''Expenses:General'', credit_account = ''Assets:Cash'',
                 amount = 500000, ai_categorized = True\<rparr>])"
    by code_simp
  show ?thesis
    using got_paid_is_recorded_as_expense
      [of "''Got paid $5000 from client project''" example_time "Up []"] a b
    by simp
qed

text \<open>
  A response without any of the three tokens, on a text that the keyword matching records
  as an expense: the reply is the report of recent transactions and nothing is recorded.
\<close>

theorem unparseable_response_counterexample:
  "\<not> str_in ''EXPENSE'' ''I am not sure'' \<and> \<not> str_in ''INCOME'' ''I am not sure''
   \<and> \<not> str_in ''QUERY'' ''I am not sure''
   \<and> process_natural_language (Some (Inr ''I am not sure'')) example_time
        ''I spent $45 on groceries'' (Up [])
      = Inr (''**Recent Transactions:**'' @ [newline], Up [])
   \<and> process_natural_language None example_time ''I spent $45 on groceries'' (Up [])
      = Inr (check_mark @ '' Recorded: Expenses:General $45.00'' @ [newline]
             @ ''Description: I spent $45 on groceries'',
             Up [\<lparr>date = example_time, description = ''I spent $45 on groceries'',
                  debit_account = ''Expenses:General'', credit_account = ''Assets:Cash'',
                  amount = 4500, ai_categorized = True\<rparr>])"
  by code_simp

text \<open>
  C2, as the code has it. A response that contains neither \<^verbatim>\<open>EXPENSE\<close> nor
  \<^verbatim>\<open>INCOME\<close> is not a failure: the last branch of the dispatch sends the request to the
  query handler, whose report is the reply. The keyword matching runs only when that
  handler raises.
\<close>

theorem response_without_expense_or_income_is_query:
  "\<not> str_in ''EXPENSE'' resp \<Longrightarrow> \<not> str_in ''INCOME'' resp
   \<Longrightarrow> process_natural_language (Some (Inr resp)) now msg db
       = (case handle_query msg db of
            Inr reply \<Rightarrow> Inr (reply, db)
          | Inl e \<Rightarrow> process_natural_language None now msg db)"
  by (simp add: process_natural_language_def ai_dispatch_def with_db_def split: sum.splits)

theorem response_without_expense_or_income_is_query_witness:
  "\<not> str_in ''EXPENSE'' ''QUERY: unclear'' \<and> \<not> str_in ''INCOME'' ''QUERY: unclear''
   \<and> process_natural_language (Some (Inr ''QUERY: unclear'')) example_time
        ''I bought coffee for $4.50'' (Up [])
      = Inr (''**Recent Transactions:**'' @ [newline], Up [])"
proof -
  have a: "\<not> str_in ''EXPENSE'' ''QUERY: unclear''" by code_simp
  have b: "\<not> str_in ''INCOME'' ''QUERY: unclear''" by code_simp
  have c: "handle_query ''I bought coffee for $4.50'' (Up [])
             = Inr (''**Recent Transactions:**'' @ [newline])" by code_simp
  show ?thesis
    using response_without_expense_or_income_is_query [OF a b, of example_time
        "''I bought coffee for $4.50''" "Up []"] a b c
    by simp
qed




text \<open>
  C5. The response of the model is searched for \<^verbatim>\<open>EXPENSE\<close> first, then for
  \<^verbatim>\<open>INCOME\<close>, and whatever is left is a query: a response that contains both tokens
  is handled as an expense.
\<close>

theorem expense_token_has_priority:
  "(str_in ''EXPENSE'' resp
      \<longrightarrow> ai_dispatch (Inr resp) now msg db = record_expense now msg db)
   \<and> (\<not> str_in ''EXPENSE'' resp \<and> str_in ''INCOME'' resp
      \<longrightarrow> ai_dispatch (Inr resp) now msg db = record_income now msg db)
   \<and> (\<not> str_in ''EXPENSE'' resp \<and> \<not> str_in ''INCOME'' resp
      \<longrightarrow> ai_dispatch (Inr resp) now msg db = with_db db (handle_query msg db))
   \<and> (str_in ''EXPENSE'' resp \<and> str_in ''INCOME'' resp
      \<longrightarrow> process_natural_language (Some (Inr resp)) now msg db
          = (case record_expense now msg db of
               Inr r \<Rightarrow> Inr r
             | Inl e \<Rightarrow> pattern_matching now msg db))"
  by (simp add: ai_dispatch_def process_natural_language_def)

theorem expense_token_has_priority_witness:
  "str_in ''EXPENSE'' ''INCOME or EXPENSE'' \<and> str_in ''INCOME'' ''INCOME or EXPENSE''
   \<and> process_natural_language (Some (Inr ''INCOME or EXPENSE'')) example_time
        ''I earned $20'' (Up [])
      = Inr (check_mark @ '' Recorded: Expenses:General $20.00'' @ [newline]
             @ ''Description: I earned $20'',
             Up [\<lparr>date = example_time, description = ''I earned $20'',
                  debit_account = ''Expenses:General'', credit_account = ''Assets:Cash'',
                  amount = 2000, ai_categorized = True\<rparr>])"
proof -
  have a: "str_in ''EXPENSE'' ''INCOME or EXPENSE''" by code_simp
  have b: "str_in ''INCOME'' ''INCOME or EXPENSE''" by code_simp
  have c: "record_expense example_time ''I earned $20'' (Up [])
      = Inr (check_mark @ '' Recorded: Expenses:General $20.00'' @ [newline]
             @ ''Description: I earned $20'',
             Up [\<lparr>date = example_time, description = ''I earned $20'',
                  debit_account = ''Expenses:General'', credit_account = ''Assets:Cash'',
                  amount = 2000, ai_categorized = True\<rparr>])" by code_simp
  show ?thesis
    using expense_token_has_priority [of "''INCOME or EXPENSE''" example_time "''I earned $20''"
        "Up []"] a b c
    by simp
qed



text \<open>
  C10. A request that returns a reply leaves the table as it was or appends one row, and
  the amount of that row is not negative: the pattern captures digits and a dot only, so the
  minus sign of \<^verbatim>\<open>-$45\<close> is not part of the amount and 45.00 is stored. Zero is
  accepted: \<^verbatim>\<open>$0\<close> stores 0.00.
\<close>

theorem inserted_amounts_nonnegative:
  "(process_natural_language client now msg db = Inr (reply, db')
      \<longrightarrow> db' = db \<or> (\<exists>rows t. db = Up rows \<and> db' = Up (rows @ [t]) \<and> 0 \<le> amount t))
   \<and> record_expense now ''I spent -$45 on groceries'' (Up [])
       = Inr (check_mark @ '' Recorded: Expenses:General $45.00'' @ [newline]
              @ ''Description: I spent -$45 on groceries'',
              Up [\<lparr>date = now, description = ''I spent -$45 on groceries'',
                   debit_account = ''Expenses:General'', credit_account = ''Assets:Cash'',
                   amount = 4500, ai_categorized = True\<rparr>])
   \<and> record_income now ''I received $0'' (Up [])
       = Inr (check_mark @ '' Recorded income: $0.00'' @ [newline]
              @ ''Description: I received $0'',
              Up [\<lparr>date = now, description = ''I received $0'',
                   debit_account = ''Assets:Bank'', credit_account = ''Revenue:Sales'',
                   amount = 0, ai_categorized = True\<rparr>])"
proof -
  have a: "process_natural_language client now msg db = Inr (reply, db')
      \<longrightarrow> db' = db \<or> (\<exists>rows t. db = Up rows \<and> db' = Up (rows @ [t]) \<and> 0 \<le> amount t)"
    using process_effect [of client now msg db reply db'] by (simp add: appended_nonneg_def)
  have b: "record_expense now ''I spent -$45 on groceries'' (Up [])
       = Inr (check_mark @ '' Recorded: Expenses:General $45.00'' @ [newline]
              @ ''Description: I spent -$45 on groceries'',
              Up [\<lparr>date = now, description = ''I spent -$45 on groceries'',
                   debit_account = ''Expenses:General'', credit_account = ''Assets:Cash'',
                   amount = 4500, ai_categorized = True\<rparr>])"
    by code_simp
  have c: "record_income now ''I received $0'' (Up [])
       = Inr (check_mark @ '' Recorded income: $0.00'' @ [newline]
              @ ''Description: I received $0'',
              Up [\<lparr>date = now, description = ''I received $0'',
                   debit_account = ''Assets:Bank'', credit_account = ''Revenue:Sales'',
                   amount = 0, ai_categorized = True\<rparr>])"
    by code_simp
  from a b c show ?thesis by blast
qed

theorem inserted_amounts_nonnegative_witness:
  "process_natural_language None example_time ''I spent -$45 on groceries'' (Up [])
     = Inr (check_mark @ '' Recorded: Expenses:General $45.00'' @ [newline]
              @ ''Description: I spent -$45 on groceries'',
            Up ([] @ [\<lparr>date = example_time, description = ''I spent -$45 on groceries'',
                   debit_account = ''Expenses:General'', credit_account = ''Assets:Cash'',
                   amount = 4500, ai_categorized = True\<rparr>]))
   \<and> (0::int) \<le> amount \<lparr>date = example_time, description = ''I spent -$45 on groceries'',
                   debit_account = ''Expenses:General'', credit_account = ''Assets:Cash'',
                   amount = 4500, ai_categorized = True\<rparr>"
proof -
  have a: "process_natural_language None example_time ''I spent -$45 on groceries'' (Up [])
     = Inr (check_mark @ '' Recorded: Expenses:General $45.00'' @ [newline]
              @ ''Description: I spent -$45 on groceries'',
            Up ([] @ [\<lparr>date = example_time, description = ''I spent -$45 on groceries'',
                   debit_account = ''Expenses:General'', credit_account = ''Assets:Cash'',
                   amount = 4500, ai_categorized = True\<rparr>]))"
    by code_simp
  show ?thesis
    using a inserted_amounts_nonnegative [of None example_time "''I spent -$45 on groceries''"
        "Up []" "check_mark @ '' Recorded: Expenses:General $45.00'' @ [newline]
              @ ''Description: I spent -$45 on groceries''"
        "Up ([] @ [\<lparr>date = example_time, description = ''I spent -$45 on groceries'',
                   debit_account = ''Expenses:General'', credit_account = ''Assets:Cash'',
                   amount = 4500, ai_categorized = True\<rparr>])"]
    by simp
qed

section \<open>Recent transactions\<close>

lemma sorted_desc_rev_sort_key:
  "sorted_wrt (\<lambda>a b. k b \<le> k a) (rev (sort_key k xs))"
proof -
  have "sorted (map k (sort_key k xs))" by (rule sorted_sort_key)
  then have "sorted_wrt (\<lambda>a b. k a \<le> k b) (sort_key k xs)"
    by (simp add: sorted_wrt_map)
  then show ?thesis by (simp add: sorted_wrt_rev)
qed










section \<open>Expense summary\<close>

lemma summary_loop_fold:
  "foldl summary_step (res, tot) fetched
     = (res @ concat (map summary_line fetched),
        tot + sum_list (map (\<lambda>row. float_of_decimal (snd row)) fetched))"
proof (induction fetched arbitrary: res tot)
  case Nil
  show ?case by simp
next
  case (Cons row fetched)
  obtain account amt where row: "row = (account, amt)" by (cases row)
  have step: "summary_step (res, tot) row
      = (res @ summary_line row, tot + float_of_decimal (snd row))"
    by (simp add: row summary_step_def summary_line_def)
  show ?case
    by (simp add: step Cons.IH add.assoc)
qed

lemma group_by_sum_keys: "map fst (group_by_sum key rows) = remdups (map key rows)"
  by (simp add: group_by_sum_def comp_def)

lemma group_by_sum_values:
  "map snd (group_by_sum key rows)
     = map (\<lambda>a. sum_list (map amount (filter (\<lambda>r. key r = a) rows)))
         (map fst (group_by_sum key rows))"
  by (simp add: group_by_sum_def comp_def)

lemma float_of_decimal_sum:
  "sum_list (map (\<lambda>row. float_of_decimal (snd row)) xs) = float_of_decimal (sum_list (map snd xs))"
  by (induction xs) (simp_all add: float_of_decimal_def add_divide_distrib)

lemma mset_desc_sort: "mset (rev (sort_key k xs)) = mset xs"
  by simp

lemma set_map_desc_sort: "set (map f (rev (sort_key k xs))) = set (map f xs)"
  by simp

lemma distinct_map_desc_sort: "distinct (map f (rev (sort_key k xs))) = distinct (map f xs)"
proof -
  have "mset (map f (rev (sort_key k xs))) = mset (map f xs)" by simp
  then show ?thesis by (rule mset_eq_imp_distinct_iff)
qed

lemma sum_list_map_desc_sort:
  fixes f :: "'a \<Rightarrow> 'b::comm_monoid_add"
  shows "sum_list (map f (rev (sort_key k xs))) = sum_list (map f xs)"
proof -
  have "mset (map f (rev (sort_key k xs))) = mset (map f xs)" by simp
  then have "sum_mset (mset (map f (rev (sort_key k xs)))) = sum_mset (mset (map f xs))"
    by simp
  then show ?thesis by (simp only: sum_mset_sum_list)
qed

lemma sum_groups:
  fixes key :: "txn \<Rightarrow> string"
  assumes "finite A" "key ` set ys \<subseteq> A"
  shows "(\<Sum>a\<in>A. sum_list (map amount (filter (\<lambda>r. key r = a) ys))) = sum_list (map amount ys)"
  using assms(2)
proof (induction ys)
  case Nil
  show ?case by simp
next
  case (Cons y ys)
  then have IH: "(\<Sum>a\<in>A. sum_list (map amount (filter (\<lambda>r. key r = a) ys)))
      = sum_list (map amount ys)" and y: "key y \<in> A" by auto
  have "(\<Sum>a\<in>A. sum_list (map amount (filter (\<lambda>r. key r = a) (y # ys))))
      = (\<Sum>a\<in>A. (if key y = a then amount y else 0)
                + sum_list (map amount (filter (\<lambda>r. key r = a) ys)))"
    by (rule sum.cong) auto
  also have "\<dots> = (\<Sum>a\<in>A. if key y = a then amount y else 0)
      + (\<Sum>a\<in>A. sum_list (map amount (filter (\<lambda>r. key r = a) ys)))"
    by (rule sum.distrib)
  also have "(\<Sum>a\<in>A. if key y = a then amount y else 0) = amount y"
    using assms(1) y by simp
  finally show ?case using IH by simp
qed

lemma group_by_sum_total:
  "sum_list (map snd (group_by_sum key rows)) = sum_list (map amount rows)"
proof -
  have "sum_list (map snd (group_by_sum key rows))
      = sum_list (map (\<lambda>a. sum_list (map amount (filter (\<lambda>r. key r = a) rows)))
          (remdups (map key rows)))"
    by (simp add: group_by_sum_def comp_def)
  also have "\<dots> = (\<Sum>a\<in>set (remdups (map key rows)).
      sum_list (map amount (filter (\<lambda>r. key r = a) rows)))"
    by (rule sum_list_distinct_conv_sum_set) simp
  also have "\<dots> = sum_list (map amount rows)"
    by (rule sum_groups) simp_all
  finally show ?thesis .
qed

lemma expenses_query_keys:
  "set (map fst (expenses_query rows))
     = debit_account ` {r \<in> set rows. prefix ''Expenses:'' (debit_account r)}"
  unfolding expenses_query_def set_map_desc_sort group_by_sum_keys by auto

lemma expenses_query_distinct: "distinct (map fst (expenses_query rows))"
  unfolding expenses_query_def distinct_map_desc_sort group_by_sum_keys by simp

lemma expenses_query_sorted: "sorted_wrt (\<lambda>a b. snd b \<le> snd a) (expenses_query rows)"
  unfolding expenses_query_def by (rule sorted_desc_rev_sort_key)

lemma expenses_query_entry:
  assumes "(a, t) \<in> set (expenses_query rows)"
  shows "t = sum_list (map amount (filter (\<lambda>r. debit_account r = a) rows))"
proof -
  let ?ys = "filter (\<lambda>r. prefix ''Expenses:'' (debit_account r)) rows"
  from assms have "(a, t) \<in> set (group_by_sum debit_account ?ys)"
    by (simp add: expenses_query_def)
  then have a: "a \<in> debit_account ` set ?ys"
    and t: "t = sum_list (map amount (filter (\<lambda>r. debit_account r = a) ?ys))"
    by (auto simp: group_by_sum_def)
  from a have p: "prefix ''Expenses:'' a" by auto
  have "filter (\<lambda>r. debit_account r = a) ?ys = filter (\<lambda>r. debit_account r = a) rows"
    unfolding filter_filter by (rule filter_cong) (use p in auto)
  with t show ?thesis by simp
qed

lemma expenses_query_values:
  "map snd (expenses_query rows)
     = map (\<lambda>a. sum_list (map amount (filter (\<lambda>r. debit_account r = a) rows)))
         (map fst (expenses_query rows))"
  unfolding map_map
  by (rule map_cong) (use expenses_query_entry in \<open>auto simp: comp_def\<close>)

lemma expenses_query_total:
  "sum_list (map (\<lambda>row. float_of_decimal (snd row)) (expenses_query rows))
     = float_of_decimal
         (sum_list (map amount (filter (\<lambda>r. prefix ''Expenses:'' (debit_account r)) rows)))"
proof -
  have "sum_list (map snd (expenses_query rows))
      = sum_list (map amount (filter (\<lambda>r. prefix ''Expenses:'' (debit_account r)) rows))"
    unfolding expenses_query_def sum_list_map_desc_sort by (rule group_by_sum_total)
  then show ?thesis by (simp add: float_of_decimal_sum)
qed

text \<open>
  C8. The expense summary lists exactly the debit accounts whose name starts with
  \<^verbatim>\<open>Expenses:\<close>, each once, with the sum of the amounts debited to it, largest total
  first; the total of the last line is the sum of the totals listed, which is the sum of
  all amounts debited to such accounts.
\<close>

theorem expense_summary_report:
  "set (map fst (expenses_query rows))
     = debit_account ` {r \<in> set rows. prefix ''Expenses:'' (debit_account r)}
   \<and> distinct (map fst (expenses_query rows))
   \<and> map snd (expenses_query rows)
       = map (\<lambda>a. sum_list (map amount (filter (\<lambda>r. debit_account r = a) rows)))
           (map fst (expenses_query rows))
   \<and> sorted_wrt (\<lambda>a b. snd b \<le> snd a) (expenses_query rows)
   \<and> get_expenses_summary (Up rows)
       = Inr (''**Expense Summary:**'' @ [newline]
              @ concat (map summary_line (expenses_query rows))
              @ [newline] @ ''**Total Expenses: $''
              @ fmt2f (sum_list (map (\<lambda>row. float_of_decimal (snd row)) (expenses_query rows)))
              @ ''**'')
   \<and> sum_list (map (\<lambda>row. float_of_decimal (snd row)) (expenses_query rows))
       = float_of_decimal
           (sum_list (map amount
              (filter (\<lambda>r. prefix ''Expenses:'' (debit_account r)) rows)))"
proof -
  have r: "get_expenses_summary (Up rows)
       = Inr (''**Expense Summary:**'' @ [newline]
              @ concat (map summary_line (expenses_query rows))
              @ [newline] @ ''**Total Expenses: $''
              @ fmt2f (sum_list (map (\<lambda>row. float_of_decimal (snd row)) (expenses_query rows)))
              @ ''**'')"
    by (simp add: get_expenses_summary_def get_db_connection_def summary_loop_def
        summary_loop_fold)
  show ?thesis
    using expenses_query_keys [of rows] expenses_query_distinct [of rows]
      expenses_query_values [of rows] expenses_query_sorted [of rows] r
      expenses_query_total [of rows]
    by blast
qed

theorem expense_summary_report_witness:
  "expenses_query example_ledger
     = [(''Expenses:Transport'', 3000), (''Expenses:General'', 1700), (''Expenses:Food'', 1700)]
   \<and> get_expenses_summary (Up example_ledger)
       = Inr (''**Expense Summary:**'' @ [newline]
              @ ''Expenses:Transport: $30.00'' @ [newline]
              @ ''Expenses:General: $17.00'' @ [newline]
              @ ''Expenses:Food: $17.00'' @ [newline]
              @ [newline] @ ''**Total Expenses: $64.00**'')"
proof -
  have q: "expenses_query example_ledger
     = [(''Expenses:Transport'', 3000), (''Expenses:General'', 1700), (''Expenses:Food'', 1700)]"
    by code_simp
  have l: "concat (map summary_line (expenses_query example_ledger))
      = ''Expenses:Transport: $30.00'' @ [newline]
              @ ''Expenses:General: $17.00'' @ [newline]
              @ ''Expenses:Food: $17.00'' @ [newline]"
    unfolding q by code_simp
  have t: "fmt2f (sum_list (map (\<lambda>row. float_of_decimal (snd row)) (expenses_query example_ledger)))
      = ''64.00''"
    unfolding q by code_simp
  show ?thesis
    using expense_summary_report [of example_ledger] q l t by simp
qed

section \<open>Balances\<close>

lemma balances_step_eq:
  "balances_step al (k, v) = AList.update k (lookup0 al k + float_of_decimal v) al"
  by (simp add: balances_step_def lookup0_def)

lemma balances_step_keys: "fst ` set (balances_step al row) = insert (fst row) (fst ` set al)"
  by (cases row) (simp add: balances_step_eq dom_update)

lemma balances_step_distinct:
  "distinct (map fst al) \<Longrightarrow> distinct (map fst (balances_step al row))"
  by (cases row) (simp add: balances_step_eq distinct_update)

lemma balances_step_lookup:
  "lookup0 (balances_step al row) a
     = lookup0 al a + (if fst row = a then float_of_decimal (snd row) else 0)"
  by (cases row) (simp add: balances_step_eq lookup0_def update_conv')

lemma fold_keys:
  "fst ` set (foldl balances_step al fetched) = fst ` set al \<union> fst ` set fetched"
  by (induction fetched arbitrary: al) (auto simp: balances_step_keys)

lemma fold_distinct:
  "distinct (map fst al) \<Longrightarrow> distinct (map fst (foldl balances_step al fetched))"
  by (induction fetched arbitrary: al) (simp_all add: balances_step_distinct)

lemma fold_lookup:
  "lookup0 (foldl balances_step al fetched) a
     = lookup0 al a
       + (\<Sum>row\<leftarrow>fetched. if fst row = a then float_of_decimal (snd row) else 0)"
  by (induction fetched arbitrary: al) (simp_all add: balances_step_lookup add.assoc)

lemma sum_list_single_key:
  fixes g :: "'k \<Rightarrow> rat"
  assumes "distinct ks"
  shows "(\<Sum>k\<leftarrow>ks. if k = a then g k else 0) = (if a \<in> set ks then g a else 0)"
  using assms by (induction ks) auto

lemma group_lookup:
  fixes f :: "int \<Rightarrow> rat"
  assumes "f 0 = 0"
  shows "(\<Sum>row\<leftarrow>group_by_sum key rows. if fst row = a then f (snd row) else 0)
     = f (sum_list (map amount (filter (\<lambda>r. key r = a) rows)))"
proof -
  let ?S = "\<lambda>k. sum_list (map amount (filter (\<lambda>r. key r = k) rows))"
  have "(\<Sum>row\<leftarrow>group_by_sum key rows. if fst row = a then f (snd row) else 0)
      = (\<Sum>k\<leftarrow>remdups (map key rows). if k = a then f (?S k) else 0)"
    by (simp add: group_by_sum_def comp_def cong: if_cong)
  also have "\<dots> = (if a \<in> set (remdups (map key rows)) then f (?S a) else 0)"
    by (rule sum_list_single_key) simp
  also have "\<dots> = f (?S a)"
  proof (cases "a \<in> key ` set rows")
    case True
    then show ?thesis by simp
  next
    case False
    then have "filter (\<lambda>r. key r = a) rows = []" by (auto simp: filter_empty_conv)
    with False assms show ?thesis by simp
  qed
  finally show ?thesis .
qed

lemma balances_query_lookup:
  "(\<Sum>row\<leftarrow>balances_query rows. if fst row = a then float_of_decimal (snd row) else 0)
     = spec_balance rows a"
proof -
  have d: "(\<Sum>row\<leftarrow>group_by_sum debit_account rows.
        if fst row = a then float_of_decimal (snd row) else 0)
      = float_of_decimal (sum_list (map amount (filter (\<lambda>r. debit_account r = a) rows)))"
    by (rule group_lookup) (simp add: float_of_decimal_def)
  have "(\<Sum>row\<leftarrow>map (\<lambda>(account, total_sum). (account, - total_sum))
          (group_by_sum credit_account rows).
        if fst row = a then float_of_decimal (snd row) else 0)
      = (\<Sum>row\<leftarrow>group_by_sum credit_account rows.
        if fst row = a then float_of_decimal (- snd row) else 0)"
    by (simp add: comp_def case_prod_beta cong: if_cong)
  also have "\<dots> = float_of_decimal
      (- sum_list (map amount (filter (\<lambda>r. credit_account r = a) rows)))"
    by (rule group_lookup [where f = "\<lambda>v. float_of_decimal (- v)"])
      (simp add: float_of_decimal_def)
  finally have c: "(\<Sum>row\<leftarrow>map (\<lambda>(account, total_sum). (account, - total_sum))
          (group_by_sum credit_account rows).
        if fst row = a then float_of_decimal (snd row) else 0)
      = - float_of_decimal (sum_list (map amount (filter (\<lambda>r. credit_account r = a) rows)))"
    by (simp add: float_of_decimal_def)
  have "(\<Sum>row\<leftarrow>balances_query rows.
        if fst row = a then float_of_decimal (snd row) else 0)
      = (\<Sum>row\<leftarrow>group_by_sum debit_account rows.
          if fst row = a then float_of_decimal (snd row) else 0)
        + (\<Sum>row\<leftarrow>map (\<lambda>(account, total_sum). (account, - total_sum))
            (group_by_sum credit_account rows).
          if fst row = a then float_of_decimal (snd row) else 0)"
    unfolding balances_query_def by (simp only: map_append sum_list_append)
  then show ?thesis
    unfolding d c spec_balance_def by simp
qed

lemma group_by_sum_key_set: "fst ` set (group_by_sum key rows) = key ` set rows"
proof -
  have "fst ` set (group_by_sum key rows) = set (map fst (group_by_sum key rows))" by simp
  also have "\<dots> = key ` set rows" unfolding group_by_sum_keys by simp
  finally show ?thesis .
qed

lemma negated_key_set:
  "fst ` set (map (\<lambda>(account, total_sum). (account, - total_sum)) xs) = fst ` set xs"
  by (force simp: image_iff)

lemma balances_query_keys: "fst ` set (balances_query rows) = spec_accounts rows"
  unfolding balances_query_def spec_accounts_def set_append image_Un negated_key_set
    group_by_sum_key_set by (rule refl)

lemma accumulate_keys: "fst ` set (accumulate_balances (balances_query rows)) = spec_accounts rows"
  by (simp add: accumulate_balances_def fold_keys balances_query_keys)

lemma accumulate_distinct: "distinct (map fst (accumulate_balances fetched))"
  unfolding accumulate_balances_def by (rule fold_distinct) simp

lemma lookup0_Nil: "lookup0 [] a = 0"
  by (simp add: lookup0_def)

lemma accumulate_lookup:
  "lookup0 (accumulate_balances (balances_query rows)) a = spec_balance rows a"
  by (simp add: accumulate_balances_def fold_lookup balances_query_lookup lookup0_Nil)

lemma sorted_graph:
  fixes f :: "string \<Rightarrow> rat"
  shows "sorted xs \<Longrightarrow> sorted (map (\<lambda>a. (a, f a)) xs)"
proof -
  assume "sorted xs"
  then have "sorted_wrt (\<lambda>a b. a \<le> b) xs" by simp
  moreover have "(a, f a) \<le> (b, f b)" if "a \<le> b" for a b
    using that by (cases "a = b") (auto simp: less_eq_prod_def)
  ultimately have "sorted_wrt (\<lambda>a b. (a, f a) \<le> (b, f b)) xs"
    by (rule sorted_wrt_mono_rel [rotated]) simp
  then show ?thesis by (simp add: sorted_wrt_map)
qed

lemma sort_alist:
  fixes al :: "(string \<times> rat) list"
  assumes "distinct (map fst al)"
  shows "sort al = map (\<lambda>a. (a, lookup0 al a)) (sorted_list_of_set (fst ` set al))"
proof (rule sorted_distinct_set_unique)
  show "sorted (sort al)" by simp
  show "distinct (sort al)" using assms by (simp add: distinct_map)
  show "sorted (map (\<lambda>a. (a, lookup0 al a)) (sorted_list_of_set (fst ` set al)))"
    by (rule sorted_graph) simp
  show "distinct (map (\<lambda>a. (a, lookup0 al a)) (sorted_list_of_set (fst ` set al)))"
    by (simp add: distinct_map inj_on_def)
  have l: "lookup0 al k = v" if "(k, v) \<in> set al" for k v
    using that assms by (simp add: lookup0_def)
  show "set (sort al) = set (map (\<lambda>a. (a, lookup0 al a)) (sorted_list_of_set (fst ` set al)))"
    using l by (force simp: image_iff)
qed

lemma balance_entries_spec:
  "balance_entries rows
     = filter (\<lambda>(account, balance). balance \<noteq> 0)
         (map (\<lambda>a. (a, spec_balance rows a)) (sorted_list_of_set (spec_accounts rows)))"
  unfolding balance_entries_def
  by (simp add: sort_alist [OF accumulate_distinct] accumulate_keys accumulate_lookup)

lemma balance_entries_sorted: "sorted (map fst (balance_entries rows)) \<and> distinct (map fst (balance_entries rows))"
proof -
  have "map fst (balance_entries rows)
      = filter (\<lambda>a. spec_balance rows a \<noteq> 0) (sorted_list_of_set (spec_accounts rows))"
    unfolding balance_entries_spec by (simp add: filter_map comp_def)
  then show ?thesis by (simp add: sorted_wrt_filter)
qed

lemma digit_char_is_digit: "0 \<le> k \<Longrightarrow> k < 10 \<Longrightarrow> is_digit (''0123456789'' ! nat k)"
  unfolding is_digit_def by (rule nth_mem) simp

lemma show_int_digit: "n < 10 \<Longrightarrow> show_int n = [''0123456789'' ! nat n]"
  by (simp add: show_int.simps)

lemma pad2_digits:
  assumes "0 \<le> m" "m < 100"
  shows "pad2 m = [''0123456789'' ! nat (m div 10), ''0123456789'' ! nat (m mod 10)]"
proof (cases "m < 10")
  case True
  with assms show ?thesis by (simp add: pad2_def show_int_digit)
next
  case False
  then have "show_int m = show_int (m div 10) @ [''0123456789'' ! nat (m mod 10)]"
    by (subst show_int.simps) simp
  moreover have "m div 10 < 10" using assms by simp
  ultimately show ?thesis using False by (simp add: pad2_def show_int_digit)
qed

lemma fmt2f_two_decimals: "two_decimals (fmt2f x)"
proof -
  define c where "c = round_half_even (\<bar>x\<bar> * 100)"
  have m: "0 \<le> c mod 100" "c mod 100 < 100" by simp_all
  have d: "0 \<le> c mod 100 div 10" "c mod 100 div 10 < 10" "0 \<le> c mod 100 mod 10"
    "c mod 100 mod 10 < 10"
    using m by simp_all
  show ?thesis
    using digit_char_is_digit [OF d(1,2)] digit_char_is_digit [OF d(3,4)]
    by (simp add: fmt2f_def two_decimals_def Let_def c_def [symmetric] pad2_digits [OF m])
qed

lemma balance_line_DR:
  "0 < b \<Longrightarrow> balance_line (a, b) = a @ '': $'' @ fmt2f b @ '' DR'' @ [newline]"
  by (simp add: balance_line_def)

lemma balance_line_CR:
  "b < 0 \<Longrightarrow> balance_line (a, b) = a @ '': $'' @ fmt2f (- b) @ '' CR'' @ [newline]"
  by (simp add: balance_line_def)

text \<open>
  C4. The balances report is computed from two grouped queries and a dictionary, and it
  agrees with the specification: it lists the accounts in ascending order of name, each
  once, with the sum of the amounts debited to the account minus the sum of the amounts
  credited to it, and leaves out the accounts whose balance is zero. A line shows the
  absolute value with two decimals, followed by \<^verbatim>\<open>DR\<close> for a positive and
  \<^verbatim>\<open>CR\<close> for a negative balance. One expense of 45.00 debited to
  \<^verbatim>\<open>Expenses:Food\<close> and credited to \<^verbatim>\<open>Assets:Cash\<close> gives the two lines
  \<^verbatim>\<open>Assets:Cash: $45.00 CR\<close> and \<^verbatim>\<open>Expenses:Food: $45.00 DR\<close>.
\<close>

theorem balances_report:
  "balance_entries rows
     = filter (\<lambda>(account, balance). balance \<noteq> 0)
         (map (\<lambda>a. (a, spec_balance rows a)) (sorted_list_of_set (spec_accounts rows)))
   \<and> sorted (map fst (balance_entries rows)) \<and> distinct (map fst (balance_entries rows))
   \<and> get_balances (Up rows)
       = Inr (''**Account Balances:**'' @ [newline]
              @ concat (map balance_line (balance_entries rows)))
   \<and> (0 < b \<longrightarrow> balance_line (a, b) = a @ '': $'' @ fmt2f b @ '' DR'' @ [newline])
   \<and> (b < 0 \<longrightarrow> balance_line (a, b) = a @ '': $'' @ fmt2f (- b) @ '' CR'' @ [newline])
   \<and> two_decimals (fmt2f b)
   \<and> get_balances
        (Up [\<lparr>date = d, description = descr, debit_account = ''Expenses:Food'',
              credit_account = ''Assets:Cash'', amount = 4500, ai_categorized = True\<rparr>])
       = Inr (''**Account Balances:**'' @ [newline]
              @ ''Assets:Cash: $45.00 CR'' @ [newline]
              @ ''Expenses:Food: $45.00 DR'' @ [newline])"
proof -
  have g: "get_balances (Up rows)
       = Inr (''**Account Balances:**'' @ [newline]
              @ concat (map balance_line (balance_entries rows)))"
    by (simp add: get_balances_def get_db_connection_def)
  have e: "get_balances
        (Up [\<lparr>date = d, description = descr, debit_account = ''Expenses:Food'',
              credit_account = ''Assets:Cash'', amount = 4500, ai_categorized = True\<rparr>])
       = Inr (''**Account Balances:**'' @ [newline]
              @ ''Assets:Cash: $45.00 CR'' @ [newline]
              @ ''Expenses:Food: $45.00 DR'' @ [newline])"
    by code_simp
  show ?thesis
    using balance_entries_spec [of rows] balance_entries_sorted [of rows] g
      balance_line_DR [of b a] balance_line_CR [of b a] fmt2f_two_decimals [of b] e
    by blast
qed

theorem balances_report_witness:
  "balance_entries example_ledger
     = [(''Assets:Bank'', 5000), (''Assets:Cash'', - 47), (''Expenses:Food'', 17),
        (''Expenses:Transport'', 30), (''Revenue:Sales'', - 5000)]
   \<and> spec_balance example_ledger ''Expenses:General'' = 0
   \<and> (- 47 :: rat) < 0
   \<and> balance_line (''Assets:Cash'', - 47) = ''Assets:Cash: $47.00 CR'' @ [newline]
   \<and> get_balances (Up example_ledger)
       = Inr (''**Account Balances:**'' @ [newline]
              @ ''Assets:Bank: $5000.00 DR'' @ [newline]
              @ ''Assets:Cash: $47.00 CR'' @ [newline]
              @ ''Expenses:Food: $17.00 DR'' @ [newline]
              @ ''Expenses:Transport: $30.00 DR'' @ [newline]
              @ ''Revenue:Sales: $5000.00 CR'' @ [newline])"
proof -
  have q: "balance_entries example_ledger
     = [(''Assets:Bank'', 5000), (''Assets:Cash'', - 47), (''Expenses:Food'', 17),
        (''Expenses:Transport'', 30), (''Revenue:Sales'', - 5000)]"
    by code_simp
  have z: "spec_balance example_ledger ''Expenses:General'' = 0"
    by code_simp
  have f: "fmt2f (- (- 47)) = ''47.00''" by code_simp
  have l: "concat (map balance_line (balance_entries example_ledger))
      = ''Assets:Bank: $5000.00 DR'' @ [newline]
              @ ''Assets:Cash: $47.00 CR'' @ [newline]
              @ ''Expenses:Food: $17.00 DR'' @ [newline]
              @ ''Expenses:Transport: $30.00 DR'' @ [newline]
              @ ''Revenue:Sales: $5000.00 CR'' @ [newline]"
    unfolding q by code_simp
  note r = balances_report [of example_ledger "- 47" "''Assets:Cash''"]
  from r have g: "get_balances (Up example_ledger)
       = Inr (''**Account Balances:**'' @ [newline]
              @ concat (map balance_line (balance_entries example_ledger)))"
    by blast
  from r have cr: "(- 47 :: rat) < 0
      \<longrightarrow> balance_line (''Assets:Cash'', - 47)
          = ''Assets:Cash'' @ '': $'' @ fmt2f (- (- 47)) @ '' CR'' @ [newline]"
    by blast
  have n: "(- 47 :: rat) < 0" by simp
  have c: "balance_line (''Assets:Cash'', - 47) = ''Assets:Cash: $47.00 CR'' @ [newline]"
    using cr n by (simp only: f) simp
  have g': "get_balances (Up example_ledger)
       = Inr (''**Account Balances:**'' @ [newline]
              @ ''Assets:Bank: $5000.00 DR'' @ [newline]
              @ ''Assets:Cash: $47.00 CR'' @ [newline]
              @ ''Expenses:Food: $17.00 DR'' @ [newline]
              @ ''Expenses:Transport: $30.00 DR'' @ [newline]
              @ ''Revenue:Sales: $5000.00 CR'' @ [newline])"
    unfolding g l by simp
  from q z n c g' show ?thesis by blast
qed

end
